theory Spec2Isabelle
  imports Main "HOL-Library.Multiset" "HOL-Library.Sublist"
begin

section \<open>The echo program of \<open>src/echo.py\<close>\<close>

text \<open>
  The module runs three top-level statements: it prints the whole of \<open>sys.argv\<close> joined
  by spaces, it splits \<open>sys.argv[1:]\<close> into flags and the rest, and it prints the rest
  joined by \<open>sep\<close> and ended by \<open>end\<close>. Tokens and output are strings; standard
  output is the string of everything written so far, passed through each statement.
\<close>

subsection \<open>The string operations the module uses\<close>

text \<open>\<open>sep.join(xs)\<close>: the elements of \<open>xs\<close> with \<open>sep\<close> between consecutive ones.\<close>

fun join :: "string \<Rightarrow> string list \<Rightarrow> string" where
  "join sep [] = []"
| "join sep [x] = x"
| "join sep (x # y # ys) = x @ sep @ join sep (y # ys)"

text \<open>\<open>s.startswith(p)\<close>: the first \<open>len(p)\<close> characters of \<open>s\<close> are \<open>p\<close>.\<close>

definition startswith :: "string \<Rightarrow> string \<Rightarrow> bool" where
  "startswith s p = (take (length p) s = p)"

text \<open>\<open>print(s, end=e)\<close> appends \<open>s\<close> and then \<open>e\<close> to standard output.\<close>

definition print_py :: "string \<Rightarrow> string \<Rightarrow> string \<Rightarrow> string" where
  "print_py s e out = out @ s @ e"

subsection \<open>\<open>split_args\<close>\<close>

text \<open>
  The \<open>for\<close> loop of \<open>split_args\<close>, with its two accumulators: each argument is appended
  to \<open>flags\<close> when it starts with a dash and to \<open>rest\<close> otherwise.
\<close>

fun split_loop :: "string list \<Rightarrow> string list \<Rightarrow> string list \<Rightarrow> string list \<times> string list" where
  "split_loop [] flags rest = (flags, rest)"
| "split_loop (arg # args) flags rest =
     (if startswith arg ''-'' then split_loop args (flags @ [arg]) rest
      else split_loop args flags (rest @ [arg]))"

definition split_args :: "string list \<Rightarrow> string list \<times> string list" where
  "split_args args = split_loop args [] []"

subsection \<open>The top-level statements\<close>

text \<open>\<open>print(' '.join(sys.argv))\<close>, with the default \<open>end\<close> of a newline.\<close>

definition print_argv :: "string list \<Rightarrow> string \<Rightarrow> string" where
  "print_argv argv out = print_py (join '' '' argv) ''\<newline>'' out"

text \<open>\<open>sep = '' if '-s' in flags else ' '\<close> and \<open>end = '' if '-n' in flags else '\n'\<close>.\<close>

definition sep_of :: "string list \<Rightarrow> string" where
  "sep_of flags = (if ''-s'' \<in> set flags then [] else '' '')"

definition end_of :: "string list \<Rightarrow> string" where
  "end_of flags = (if ''-n'' \<in> set flags then [] else ''\<newline>'')"

text \<open>The last three statements: split \<open>sys.argv[1:]\<close>, choose \<open>sep\<close> and \<open>end\<close>, print.\<close>

definition print_formatted :: "string list \<Rightarrow> string \<Rightarrow> string" where
  "print_formatted argv out =
     (case split_args (drop 1 argv) of
        (flags, args) \<Rightarrow> print_py (join (sep_of flags) args) (end_of flags) out)"

text \<open>The module, run on the argument vector \<open>argv\<close> with \<open>out\<close> already written.\<close>

definition echo :: "string list \<Rightarrow> string \<Rightarrow> string" where
  "echo argv out = print_formatted argv (print_argv argv out)"

text \<open>What each of the two prints writes, and what a whole run writes.\<close>

definition first_line :: "string list \<Rightarrow> string" where
  "first_line argv = print_argv argv []"

definition formatted_line :: "string list \<Rightarrow> string" where
  "formatted_line argv = print_formatted argv []"

definition stdout_of :: "string list \<Rightarrow> string" where
  "stdout_of argv = echo argv []"

text \<open>
  The classification rule in the specification's words: a token is a flag when it is
  non-empty and its first character is a dash. Lemma \<open>startswith_dash\<close> below shows
  that this is the test the loop makes.
\<close>

definition is_flag :: "string \<Rightarrow> bool" where
  "is_flag a = (a \<noteq> [] \<and> hd a = CHR ''-'')"

section \<open>Properties\<close>

subsection \<open>The loop as a stable partition\<close>

lemma startswith_dash: "startswith a ''-'' = is_flag a"
  by (cases a) (simp_all add: startswith_def is_flag_def)

lemma split_loop_filter:
  "split_loop args flags rest =
     (flags @ filter is_flag args, rest @ filter (\<lambda>a. \<not> is_flag a) args)"
  by (induction args arbitrary: flags rest) (simp_all add: startswith_dash)

lemma split_args_filter:
  "split_args args = (filter is_flag args, filter (\<lambda>a. \<not> is_flag a) args)"
  by (simp add: split_args_def split_loop_filter)

lemma print_formatted_eq:
  "print_formatted argv out =
     out @ join (sep_of (filter is_flag (drop 1 argv)))
                (filter (\<lambda>a. \<not> is_flag a) (drop 1 argv))
         @ end_of (filter is_flag (drop 1 argv))"
  by (simp add: print_formatted_def split_args_filter print_py_def)

lemma echo_eq: "echo argv out = out @ first_line argv @ formatted_line argv"
  by (simp add: echo_def first_line_def formatted_line_def print_formatted_eq
      print_argv_def print_py_def)

lemma join_Cons: "join sep (x # xs) = x @ concat (map (\<lambda>a. sep @ a) xs)"
  by (induction xs arbitrary: x) simp_all

lemma first_line_eq: "first_line argv = join '' '' argv @ ''\<newline>''"
  by (simp add: first_line_def print_argv_def print_py_def)

lemma formatted_line_eq:
  "formatted_line argv =
     join (sep_of (filter is_flag (drop 1 argv)))
          (filter (\<lambda>a. \<not> is_flag a) (drop 1 argv))
       @ end_of (filter is_flag (drop 1 argv))"
  by (simp add: formatted_line_def print_formatted_eq)

lemma is_flag_s: "is_flag ''-s''"
  by (simp add: is_flag_def)

lemma is_flag_n: "is_flag ''-n''"
  by (simp add: is_flag_def)

lemma sep_of_filter: "sep_of (filter is_flag xs) = sep_of xs"
  by (simp add: sep_of_def is_flag_s)

lemma end_of_filter: "end_of (filter is_flag xs) = end_of xs"
  by (simp add: end_of_def is_flag_n)

text \<open>
  The formatted line depends on the arguments only through their non-flag subsequence
  and through whether \<open>-s\<close> and \<open>-n\<close> occur among them.
\<close>

lemma formatted_line_args:
  "formatted_line (prog # args) =
     join (sep_of args) (filter (\<lambda>a. \<not> is_flag a) args) @ end_of args"
  by (simp add: formatted_line_eq sep_of_filter end_of_filter)

text \<open>The two examples of the docstring of \<open>split_args\<close>.\<close>

lemma split_args_doctests:
  "split_args [''-n'', ''foo'', ''bar''] = ([''-n''], [''foo'', ''bar''])"
  "split_args [''-n'', ''foo'', ''-s'', ''bar''] = ([''-n'', ''-s''], [''foo'', ''bar''])"
  by (simp_all add: split_args_def startswith_def)

subsection \<open>The first print\<close>

text \<open>
  C1 (as amended): the first thing a run writes, before the arguments are split, is the
  whole argument vector joined by single spaces and ended by a newline; that is the
  program's invocation name, then each argument after it preceded by one space. For the
  arguments \<open>-n foo bar\<close> the line is the invocation name followed by
  \<open>" -n foo bar\n"\<close>.
\<close>

theorem first_line_with_name:
  "print_argv (prog # args) out =
     out @ prog @ concat (map (\<lambda>a. '' '' @ a) args) @ ''\<newline>'' \<and>
   stdout_of (prog # args) =
     (prog @ concat (map (\<lambda>a. '' '' @ a) args) @ ''\<newline>'') @ formatted_line (prog # args) \<and>
   first_line [prog, ''-n'', ''foo'', ''bar''] = prog @ '' -n foo bar\<newline>''"
  by (simp add: stdout_of_def echo_eq first_line_eq join_Cons print_argv_def print_py_def)

theorem first_line_with_name_witness:
  "stdout_of [''echo.py'', ''-n'', ''foo'', ''bar''] = ''echo.py -n foo bar\<newline>foo bar''"
proof -
  have "formatted_line [''echo.py'', ''-n'', ''foo'', ''bar''] = ''foo bar''"
    by (simp add: formatted_line_def print_formatted_def split_args_def startswith_def
        print_py_def sep_of_def end_of_def)
  with first_line_with_name [of "''echo.py''" "[''-n'', ''foo'', ''bar'']" "[]"]
  show ?thesis by simp
qed

text \<open>
  The claim as first stated, with the invocation name left out of the line, fails: run
  as \<open>echo.py -n foo bar\<close>, the first line is not \<open>"-n foo bar\n"\<close>.
\<close>

theorem first_line_counterexample:
  "first_line [''echo.py'', ''-n'', ''foo'', ''bar''] = ''echo.py -n foo bar\<newline>'' \<and>
   first_line [''echo.py'', ''-n'', ''foo'', ''bar'']
     \<noteq> join '' '' (drop 1 [''echo.py'', ''-n'', ''foo'', ''bar'']) @ ''\<newline>'' \<and>
   first_line [''echo.py'', ''-n'', ''foo'', ''bar''] \<noteq> ''-n foo bar\<newline>''"
  by (simp add: first_line_eq)

text \<open>
  C9 (as amended): the first line is the whole argument vector, invocation name
  included: the invocation name, then every argument after it, each preceded by one
  space, then a newline. It is the first thing in the output and it begins with the
  invocation name. With no user arguments it is the invocation name alone and a newline,
  which is an empty line exactly when the invocation name is the empty string.
\<close>

theorem whole_argv_first:
  "first_line (prog # args) = prog @ concat (map (\<lambda>a. '' '' @ a) args) @ ''\<newline>'' \<and>
   prefix (first_line (prog # args)) (stdout_of (prog # args)) \<and>
   prefix prog (first_line (prog # args)) \<and>
   first_line [prog] = prog @ ''\<newline>'' \<and>
   (first_line [prog] = ''\<newline>'' \<longleftrightarrow> prog = [])"
  by (simp add: first_line_eq stdout_of_def echo_eq join_Cons)

theorem whole_argv_first_witness:
  "first_line [''echo.py'', ''a'', ''b''] = ''echo.py a b\<newline>'' \<and>
   prefix ''echo.py'' (first_line [''echo.py'', ''a'', ''b'']) \<and>
   first_line [''echo.py''] = ''echo.py\<newline>'' \<and> first_line [''echo.py''] \<noteq> ''\<newline>''"
  using whole_argv_first [of "''echo.py''" "[''a'', ''b'']"]
    whole_argv_first [of "''echo.py''" "[]"]
  by simp

text \<open>
  The claim as first stated, that with no user arguments the line is never an empty
  line, fails when the interpreter is given no script name (\<open>python < echo.py\<close>), where
  \<open>sys.argv\<close> is \<open>['']\<close>: the first line is then a bare newline.
\<close>

theorem whole_argv_first_counterexample:
  "first_line [''''] = ''\<newline>''"
  by (simp add: first_line_def print_argv_def print_py_def)

subsection \<open>Classification\<close>

text \<open>
  C2: a token goes to the flags if and only if it is non-empty and its first character
  is a dash, and to the values otherwise, wherever it stands in the argument list; the
  empty string goes to the values.
\<close>

theorem classification_rule:
  "split_args (xs @ a # ys) =
     (if a \<noteq> [] \<and> hd a = CHR ''-''
      then (fst (split_args xs) @ a # fst (split_args ys),
            snd (split_args xs) @ snd (split_args ys))
      else (fst (split_args xs) @ fst (split_args ys),
            snd (split_args xs) @ a # snd (split_args ys))) \<and>
   split_args [a] = (if a \<noteq> [] \<and> hd a = CHR ''-'' then ([a], []) else ([], [a])) \<and>
   split_args [[]] = ([], [[]])"
  by (simp add: split_args_filter is_flag_def)

theorem classification_rule_witness:
  "split_args [''foo'', ''-x'', ''''] = ([''-x''], [''foo'', '''']) \<and>
   split_args [''-''] = ([''-''], []) \<and> split_args [''a-''] = ([], [''a-''])"
  using classification_rule [of "[''foo'']" "''-x''" "['''']"]
    classification_rule [of "[]" "''-''" "[]"] classification_rule [of "[]" "''a-''" "[]"]
  by (simp add: split_args_def startswith_def)

text \<open>
  C3: the split is a stable partition. The two results have together as many elements
  as the input, they hold together exactly the input's elements with their
  multiplicities, no token is in both, the input is an interleaving of the two, and each
  is a subsequence of the input (the flags are the input filtered by the test, the
  values the input filtered by its negation).
\<close>

theorem stable_partition:
  assumes "split_args A = (flags, values)"
  shows "length flags + length values = length A \<and>
         mset flags + mset values = mset A \<and>
         set flags \<inter> set values = {} \<and>
         A \<in> shuffles flags values \<and>
         subseq flags A \<and> subseq values A \<and>
         flags = filter is_flag A \<and> values = filter (\<lambda>a. \<not> is_flag a) A"
proof -
  from assms have f: "flags = filter is_flag A"
    and v: "values = filter (\<lambda>a. \<not> is_flag a) A"
    by (simp_all add: split_args_filter)
  have "length flags + length values = length A"
    unfolding f v by (rule sum_length_filter_compl)
  moreover have "mset flags + mset values = mset A"
    unfolding f v by simp
  moreover have "set flags \<inter> set values = {}"
    unfolding f v by auto
  moreover have "A \<in> shuffles flags values"
    unfolding f v by (rule partition_in_shuffles)
  moreover have "subseq flags A" "subseq values A"
    unfolding f v by simp_all
  ultimately show ?thesis using f v by simp
qed

theorem stable_partition_witness:
  "split_args [''-n'', ''foo'', ''-s'', ''bar''] = ([''-n'', ''-s''], [''foo'', ''bar'']) \<and>
   length [''-n'', ''-s''] + length [''foo'', ''bar''] = length [''-n'', ''foo'', ''-s'', ''bar''] \<and>
   [''-n'', ''foo'', ''-s'', ''bar''] \<in> shuffles [''-n'', ''-s''] [''foo'', ''bar''] \<and>
   subseq [''-n'', ''-s''] [''-n'', ''foo'', ''-s'', ''bar''] \<and>
   subseq [''foo'', ''bar''] [''-n'', ''foo'', ''-s'', ''bar'']"
proof -
  have h: "split_args [''-n'', ''foo'', ''-s'', ''bar''] = ([''-n'', ''-s''], [''foo'', ''bar''])"
    by (simp add: split_args_def startswith_def)
  from stable_partition [OF h] h show ?thesis by blast
qed

text \<open>
  C6: splitting the empty argument list gives two empty lists, and a run with no
  arguments (only the program's name in \<open>argv\<close>) writes, as its formatted line,
  exactly one newline.
\<close>

theorem no_arguments:
  "split_args [] = ([], []) \<and> formatted_line [prog] = ''\<newline>'' \<and>
   stdout_of [prog] = first_line [prog] @ ''\<newline>''"
  by (simp add: split_args_def stdout_of_def echo_eq formatted_line_def
      print_formatted_def print_py_def sep_of_def end_of_def)

theorem no_arguments_witness:
  "stdout_of [''echo.py''] = ''echo.py\<newline>\<newline>''"
  using no_arguments [of "''echo.py''"] by (simp add: first_line_eq)

subsection \<open>The formatted print\<close>

text \<open>
  C4: the values are joined by the empty string when the token \<open>-s\<close> is one of the
  flags, and by one space otherwise. The test is membership of the whole token: it holds
  exactly when \<open>-s\<close> is one of the arguments, and a flag that only begins with \<open>-s\<close>
  does not count.
\<close>

theorem separator_rule:
  assumes "split_args (drop 1 argv) = (flags, values)"
  shows "formatted_line argv =
           join (if ''-s'' \<in> set flags then [] else '' '') values @ end_of flags \<and>
         (''-s'' \<in> set flags \<longleftrightarrow> ''-s'' \<in> set (drop 1 argv))"
proof -
  from assms have f: "flags = filter is_flag (drop 1 argv)"
    and v: "values = filter (\<lambda>a. \<not> is_flag a) (drop 1 argv)"
    by (simp_all add: split_args_filter)
  have "formatted_line argv = join (sep_of flags) values @ end_of flags"
    unfolding f v by (rule formatted_line_eq)
  moreover have "''-s'' \<in> set flags \<longleftrightarrow> ''-s'' \<in> set (drop 1 argv)"
    unfolding f by (simp add: is_flag_s)
  ultimately show ?thesis by (simp add: sep_of_def)
qed

theorem separator_rule_witness:
  "split_args (drop 1 [''echo.py'', ''-s'', ''a'', ''b'', ''c'']) = ([''-s''], [''a'', ''b'', ''c'']) \<and>
   formatted_line [''echo.py'', ''-s'', ''a'', ''b'', ''c''] = ''abc\<newline>'' \<and>
   split_args (drop 1 [''echo.py'', ''-sx'', ''a'', ''b'', ''c'']) = ([''-sx''], [''a'', ''b'', ''c'']) \<and>
   formatted_line [''echo.py'', ''-sx'', ''a'', ''b'', ''c''] = ''a b c\<newline>''"
proof -
  have h1: "split_args (drop 1 [''echo.py'', ''-s'', ''a'', ''b'', ''c'']) =
              ([''-s''], [''a'', ''b'', ''c''])"
    by (simp add: split_args_def startswith_def)
  have h2: "split_args (drop 1 [''echo.py'', ''-sx'', ''a'', ''b'', ''c'']) =
              ([''-sx''], [''a'', ''b'', ''c''])"
    by (simp add: split_args_def startswith_def)
  from separator_rule [OF h1] have "formatted_line [''echo.py'', ''-s'', ''a'', ''b'', ''c''] = ''abc\<newline>''"
    by (simp add: end_of_def)
  moreover from separator_rule [OF h2]
  have "formatted_line [''echo.py'', ''-sx'', ''a'', ''b'', ''c''] = ''a b c\<newline>''"
    by (simp add: end_of_def)
  ultimately show ?thesis using h1 h2 by blast
qed

text \<open>
  C5: when the token \<open>-n\<close> is one of the flags, the formatted line is the joined
  values with nothing after them; otherwise it is the joined values followed by exactly
  one newline. The terminator is what the print appends after the joined values.
\<close>

theorem terminator_rule:
  assumes "split_args (drop 1 argv) = (flags, values)"
  shows "(''-n'' \<in> set flags \<longrightarrow> formatted_line argv = join (sep_of flags) values) \<and>
         (''-n'' \<notin> set flags \<longrightarrow>
            formatted_line argv = join (sep_of flags) values @ ''\<newline>'') \<and>
         (''-n'' \<in> set flags \<longleftrightarrow> ''-n'' \<in> set (drop 1 argv))"
proof -
  from assms have f: "flags = filter is_flag (drop 1 argv)"
    and v: "values = filter (\<lambda>a. \<not> is_flag a) (drop 1 argv)"
    by (simp_all add: split_args_filter)
  have "formatted_line argv = join (sep_of flags) values @ end_of flags"
    unfolding f v by (rule formatted_line_eq)
  moreover have "''-n'' \<in> set flags \<longleftrightarrow> ''-n'' \<in> set (drop 1 argv)"
    unfolding f by (simp add: is_flag_n)
  ultimately show ?thesis by (simp add: end_of_def)
qed

theorem terminator_rule_witness:
  "split_args (drop 1 [''echo.py'', ''-n'', ''-s'', ''a'', ''b'']) = ([''-n'', ''-s''], [''a'', ''b'']) \<and>
   ''-n'' \<in> set [''-n'', ''-s''] \<and>
   formatted_line [''echo.py'', ''-n'', ''-s'', ''a'', ''b''] = ''ab'' \<and>
   split_args (drop 1 [''echo.py'', ''-nn'', ''foo'', ''bar'']) = ([''-nn''], [''foo'', ''bar'']) \<and>
   ''-n'' \<notin> set [''-nn''] \<and>
   formatted_line [''echo.py'', ''-nn'', ''foo'', ''bar''] = ''foo bar\<newline>''"
proof -
  have h1: "split_args (drop 1 [''echo.py'', ''-n'', ''-s'', ''a'', ''b'']) =
              ([''-n'', ''-s''], [''a'', ''b''])"
    by (simp add: split_args_def startswith_def)
  have h2: "split_args (drop 1 [''echo.py'', ''-nn'', ''foo'', ''bar'']) =
              ([''-nn''], [''foo'', ''bar''])"
    by (simp add: split_args_def startswith_def)
  from terminator_rule [OF h1]
  have "formatted_line [''echo.py'', ''-n'', ''-s'', ''a'', ''b''] = ''ab''"
    by (simp add: sep_of_def)
  moreover from terminator_rule [OF h2]
  have "formatted_line [''echo.py'', ''-nn'', ''foo'', ''bar''] = ''foo bar\<newline>''"
    by (simp add: sep_of_def)
  moreover have "''-n'' \<in> set [''-n'', ''-s'']" and "''-n'' \<notin> set [''-nn'']"
    by simp_all
  ultimately show ?thesis using h1 h2 by blast
qed

text \<open>
  C7: a flag other than \<open>-n\<close> and \<open>-s\<close> has no effect on the formatted line. Removing
  it, or replacing it by another such flag, leaves the line as it was, and with it the
  values, the separator and the terminator. The model has no error result: neither
  \<open>split_args\<close> nor the statements after it can raise on a list of strings.
\<close>

theorem unrecognised_flag_ignored:
  assumes "is_flag f" "f \<noteq> ''-n''" "f \<noteq> ''-s''" "is_flag g" "g \<noteq> ''-n''" "g \<noteq> ''-s''"
  shows "formatted_line (prog # xs @ f # ys) = formatted_line (prog # xs @ ys) \<and>
         formatted_line (prog # xs @ f # ys) = formatted_line (prog # xs @ g # ys) \<and>
         snd (split_args (xs @ f # ys)) = snd (split_args (xs @ ys)) \<and>
         sep_of (fst (split_args (xs @ f # ys))) = sep_of (fst (split_args (xs @ ys))) \<and>
         end_of (fst (split_args (xs @ f # ys))) = end_of (fst (split_args (xs @ ys)))"
  using assms
  by (simp add: formatted_line_args split_args_filter sep_of_def end_of_def)

theorem unrecognised_flag_ignored_witness:
  "is_flag ''-x'' \<and> ''-x'' \<noteq> ''-n'' \<and> ''-x'' \<noteq> ''-s'' \<and>
   is_flag ''--help'' \<and> ''--help'' \<noteq> ''-n'' \<and> ''--help'' \<noteq> ''-s'' \<and>
   formatted_line [''echo.py'', ''a'', ''-x'', ''b''] = ''a b\<newline>'' \<and>
   formatted_line [''echo.py'', ''a'', ''--help'', ''b''] = ''a b\<newline>'' \<and>
   formatted_line [''echo.py'', ''a'', ''b''] = ''a b\<newline>''"
proof -
  have b: "formatted_line [''echo.py'', ''a'', ''b''] = ''a b\<newline>''"
    by (simp add: formatted_line_def print_formatted_def split_args_def startswith_def
        print_py_def sep_of_def end_of_def)
  have h: "is_flag ''-x''" "''-x'' \<noteq> ''-n''" "''-x'' \<noteq> ''-s''"
    "is_flag ''--help''" "''--help'' \<noteq> ''-n''" "''--help'' \<noteq> ''-s''"
    by (simp_all add: is_flag_def)
  from unrecognised_flag_ignored [OF h, of "''echo.py''" "[''a'']" "[''b'']"]
  have "formatted_line (''echo.py'' # [''a''] @ ''-x'' # [''b'']) =
          formatted_line (''echo.py'' # [''a''] @ [''b''])"
    and "formatted_line (''echo.py'' # [''a''] @ ''-x'' # [''b'']) =
          formatted_line (''echo.py'' # [''a''] @ ''--help'' # [''b''])"
    by blast+
  then have "formatted_line [''echo.py'', ''a'', ''-x'', ''b''] = ''a b\<newline>''"
    and "formatted_line [''echo.py'', ''a'', ''--help'', ''b''] = ''a b\<newline>''"
    using b by simp_all
  with b h show ?thesis by blast
qed

text \<open>
  C10: moving a flag to another place among the arguments, also behind every value,
  leaves the formatted line as it was.
\<close>

theorem flag_position_independent:
  assumes "is_flag f"
  shows "formatted_line (prog # xs @ f # ys @ zs) = formatted_line (prog # xs @ ys @ f # zs)"
  using assms
  by (simp add: formatted_line_args sep_of_def end_of_def insert_commute Un_commute Un_left_commute)

theorem flag_position_independent_witness:
  "is_flag ''-n'' \<and>
   formatted_line [''echo.py'', ''-n'', ''foo'', ''bar''] = ''foo bar'' \<and>
   formatted_line [''echo.py'', ''foo'', ''bar'', ''-n''] = ''foo bar''"
proof -
  have b: "formatted_line [''echo.py'', ''-n'', ''foo'', ''bar''] = ''foo bar''"
    by (simp add: formatted_line_def print_formatted_def split_args_def startswith_def
        print_py_def sep_of_def end_of_def)
  have h: "is_flag ''-n''"
    by (simp add: is_flag_def)
  from flag_position_independent [OF h, of "''echo.py''" "[]" "[''foo'', ''bar'']" "[]"]
  have "formatted_line [''echo.py'', ''-n'', ''foo'', ''bar''] =
          formatted_line [''echo.py'', ''foo'', ''bar'', ''-n'']"
    by simp
  with b h show ?thesis by simp
qed

end
